theory Spec2Isabelle
  imports Complex_Main
begin

section \<open>Data model\<close>

text \<open>
  The simulation is written in TypeScript; its numbers are IEEE doubles. They are modelled
  as \<^typ>\<open>real\<close>: every statement below is about the arithmetic the source writes
  down, read over the reals, without rounding.

  A \<open>Vector3\<close> (and the \<open>{x, y, z}\<close> literals handed to the physics engine) is a
  record of three coordinates, a rotation a record of the four quaternion components.
\<close>

record vec3 =
  xc :: real
  yc :: real
  zc :: real

record quat =
  qx :: real
  qy :: real
  qz :: real
  qw :: real

definition V3 :: "real \<Rightarrow> real \<Rightarrow> real \<Rightarrow> vec3" where
  "V3 a b c = \<lparr>xc = a, yc = b, zc = c\<rparr>"

definition Q4 :: "real \<Rightarrow> real \<Rightarrow> real \<Rightarrow> real \<Rightarrow> quat" where
  "Q4 a b c d = \<lparr>qx = a, qy = b, qz = c, qw = d\<rparr>"

record dims =
  width :: real
  height :: real
  depth :: real

record wheel_dims =
  radius :: real
  wheel_width :: real

section \<open>Derived geometry (module constants of Scene.tsx)\<close>

definition CART_SIZE :: dims where
  "CART_SIZE = \<lparr>width = 2, height = 0.5, depth = 0.8\<rparr>"

definition BOX_SIZE :: dims where
  "BOX_SIZE = \<lparr>width = 0.5, height = 0.5, depth = 0.5\<rparr>"

definition WHEEL_SIZE :: wheel_dims where
  "WHEEL_SIZE = \<lparr>radius = 0.1, wheel_width = 0.1\<rparr>"

definition FLOOR_HEIGHT :: real where
  "FLOOR_HEIGHT = - 0.1"

definition FLOOR_THICKNESS :: real where
  "FLOOR_THICKNESS = 0.2"

definition FLOOR_TOP_Y :: real where
  "FLOOR_TOP_Y = FLOOR_HEIGHT + (FLOOR_THICKNESS / 2)"

definition WHEEL_CENTER_Y :: real where
  "WHEEL_CENTER_Y = FLOOR_TOP_Y + radius WHEEL_SIZE"

definition CART_BOTTOM_Y :: real where
  "CART_BOTTOM_Y = FLOOR_TOP_Y + (radius WHEEL_SIZE / 2)"

definition CART_CENTER_Y :: real where
  "CART_CENTER_Y = CART_BOTTOM_Y + (height CART_SIZE / 2)"

definition CART_HALF_WIDTH :: real where
  "CART_HALF_WIDTH = width CART_SIZE / 2"

definition CART_HALF_DEPTH :: real where
  "CART_HALF_DEPTH = depth CART_SIZE / 2"

definition WHEEL_HALF_WIDTH :: real where
  "WHEEL_HALF_WIDTH = wheel_width WHEEL_SIZE / 2"

definition WHEEL_FRONT_X :: real where
  "WHEEL_FRONT_X = CART_HALF_WIDTH"

definition WHEEL_BACK_X :: real where
  "WHEEL_BACK_X = - CART_HALF_WIDTH"

definition WHEEL_LEFT_Z :: real where
  "WHEEL_LEFT_Z = CART_HALF_DEPTH + WHEEL_HALF_WIDTH"

definition WHEEL_RIGHT_Z :: real where
  "WHEEL_RIGHT_Z = - (CART_HALF_DEPTH + WHEEL_HALF_WIDTH)"

definition RECALCULATED_CART_POSITION :: vec3 where
  "RECALCULATED_CART_POSITION = V3 0 CART_CENTER_Y 0"

definition RECALCULATED_BOX_POSITION :: vec3 where
  "RECALCULATED_BOX_POSITION =
     V3 0 (CART_CENTER_Y + (height CART_SIZE / 2) + (height BOX_SIZE / 2)) 0"

text \<open>
  The four wheel meshes of the cart, in the order of the JSX (front left, front right,
  back left, back right); their positions are relative to the cart body's centre. The
  wheel cylinders are turned so that their axis, and with it their width, lies along z.
\<close>

definition wheelMeshPositions :: "vec3 list" where
  "wheelMeshPositions =
     [V3 WHEEL_FRONT_X (WHEEL_CENTER_Y - CART_CENTER_Y) WHEEL_LEFT_Z,
      V3 WHEEL_FRONT_X (WHEEL_CENTER_Y - CART_CENTER_Y) WHEEL_RIGHT_Z,
      V3 WHEEL_BACK_X (WHEEL_CENTER_Y - CART_CENTER_Y) WHEEL_LEFT_Z,
      V3 WHEEL_BACK_X (WHEEL_CENTER_Y - CART_CENTER_Y) WHEEL_RIGHT_Z]"

lemmas geometry_defs =
  CART_SIZE_def BOX_SIZE_def WHEEL_SIZE_def FLOOR_HEIGHT_def FLOOR_THICKNESS_def
  FLOOR_TOP_Y_def WHEEL_CENTER_Y_def CART_BOTTOM_Y_def CART_CENTER_Y_def
  CART_HALF_WIDTH_def CART_HALF_DEPTH_def WHEEL_HALF_WIDTH_def WHEEL_FRONT_X_def
  WHEEL_BACK_X_def WHEEL_LEFT_Z_def WHEEL_RIGHT_Z_def RECALCULATED_CART_POSITION_def
  RECALCULATED_BOX_POSITION_def wheelMeshPositions_def V3_def Q4_def

section \<open>Rigid bodies and the physics engine's interface\<close>

text \<open>
  A rigid-body handle gives access to the four attributes the scene reads and writes:
  translation, linear velocity, angular velocity and rotation. The handles live in React
  refs that are null until the body exists, hence \<^typ>\<open>'a option\<close> below.
\<close>

record body =
  translation :: vec3
  linvel :: vec3
  angvel :: vec3
  rotation :: quat

definition setTranslation :: "vec3 \<Rightarrow> body \<Rightarrow> body" where
  "setTranslation v b = b\<lparr>translation := v\<rparr>"

definition setLinvel :: "vec3 \<Rightarrow> body \<Rightarrow> body" where
  "setLinvel v b = b\<lparr>linvel := v\<rparr>"

definition setAngvel :: "vec3 \<Rightarrow> body \<Rightarrow> body" where
  "setAngvel v b = b\<lparr>angvel := v\<rparr>"

definition setRotation :: "quat \<Rightarrow> body \<Rightarrow> body" where
  "setRotation q b = b\<lparr>rotation := q\<rparr>"

text \<open>\<open>wakeUp\<close> only clears the engine's sleeping flag, which is not part of the model.\<close>

definition wakeUp :: "body \<Rightarrow> body" where
  "wakeUp b = b"

text \<open>
  Modelled from the spec: \<open>applyImpulse\<close> belongs to the physics engine, which is not part
  of the repository. The spec's glossary fixes what it does: an impulse is an instantaneous
  change in momentum, converted to a velocity change via \<open>impulse / mass\<close>. The mass of
  the cart is the \<open>cartWeight\<close> property handed to its rigid body.
\<close>

definition applyImpulse :: "real \<Rightarrow> vec3 \<Rightarrow> body \<Rightarrow> body" where
  "applyImpulse m imp b =
     b\<lparr>linvel := V3 (xc (linvel b) + xc imp / m)
                      (yc (linvel b) + yc imp / m)
                      (zc (linvel b) + zc imp / m)\<rparr>"

section \<open>Properties, scene state, timers\<close>

text \<open>
  \<open>SceneProps\<close>. The two optional callbacks are represented by whether they are given;
  what they do belongs to the caller. \<open>onObjectSelect\<close> and the selection state are left
  out: the selection code only reads the bodies and reports them.
\<close>

record props =
  floorFriction :: real
  cartBoxFriction :: real
  cartWeight :: real
  boxWeight :: real
  maxSpeed :: real
  acceleration :: real
  deceleration :: real
  distance :: real
  isSimulating :: bool
  onSimulationComplete :: bool
  onSimulationUpdate :: bool

text \<open>
  What a frame or a timer callback does to the outside: impulses applied to the cart (kept
  as a log, next to their effect on the cart's velocity) and calls of the two callbacks.
\<close>

datatype effect =
  CartImpulse vec3
  | SimulationUpdate real real real
  | SimulationComplete

text \<open>
  The three callbacks the scene hands to \<open>setTimeout\<close>: the first stage of a reset
  (100 ms after the request), the second stage that enables physics again (1000 ms after
  the first), and the delayed completion call (100 ms after the frame that asked for it).
\<close>

datatype timer_action = ResetStage | ReenableStage | CompleteCallback

record timer =
  tid :: nat
  due :: nat
  action :: timer_action

text \<open>
  The camera's orientation is kept as the point it was last aimed at by \<open>lookAt\<close>, if any.
\<close>

datatype aim = NoAim | AimAt vec3

record camera =
  position :: vec3
  aimed :: aim

record scene =
  cartRef :: "body option"
  boxRef :: "body option"
  prevIsSimulating :: bool
  resetJustApplied :: bool
  resetTimerRef :: "nat option"
  physicsEnabled :: bool
  wheelRotation :: real
  cam :: camera
  initialCameraPosition :: vec3
  simulationStartCameraPosition :: "vec3 option"
  simulationStartCartPosition :: "vec3 option"
  cameraOffset :: "vec3 option"
  simulationStartCameraDirection :: "aim option"
  simulationStartTime :: "real option"
  initialCartPosition :: "vec3 option"
  timers :: "timer list"
  nextTimerId :: nat

text \<open>
  \<open>setTimeout\<close> at clock reading \<open>now\<close> (milliseconds) returns a fresh identifier;
  \<open>clearTimeout\<close> removes the timer with the given identifier, if it is still pending.
\<close>

definition setTimeout :: "timer_action \<Rightarrow> nat \<Rightarrow> nat \<Rightarrow> scene \<Rightarrow> nat \<times> scene" where
  "setTimeout a ms now s =
     (nextTimerId s,
      s\<lparr>timers := timers s @ [\<lparr>tid = nextTimerId s, due = now + ms, action = a\<rparr>],
        nextTimerId := nextTimerId s + 1\<rparr>)"

definition clearTimeout :: "nat \<Rightarrow> scene \<Rightarrow> scene" where
  "clearTimeout i s = s\<lparr>timers := filter (\<lambda>t. tid t \<noteq> i) (timers s)\<rparr>"

section \<open>The frame callback\<close>

text \<open>Camera follow: lines 347 to 375.\<close>

definition cameraFollow :: "props \<Rightarrow> vec3 \<Rightarrow> scene \<Rightarrow> scene" where
  "cameraFollow p cartPosition s =
     (if isSimulating p \<and> simulationStartCameraPosition s \<noteq> None
         \<and> cameraOffset s \<noteq> None \<and> simulationStartCameraDirection s \<noteq> None
      then
        let smoothFactor = 0.1;
            targetCameraX = xc cartPosition + xc (the (cameraOffset s));
            newX = xc (position (cam s)) + (targetCameraX - xc (position (cam s))) * smoothFactor;
            targetPosition = V3 (xc cartPosition) (yc cartPosition) (zc cartPosition)
        in s\<lparr>cam := \<lparr>position = V3 newX (yc (the (simulationStartCameraPosition s)))
                                         (zc (the (simulationStartCameraPosition s))),
                       aimed = AimAt targetPosition\<rparr>\<rparr>
      else s)"

text \<open>Forward impulse: lines 377 to 383.\<close>

definition accelerate :: "props \<Rightarrow> real \<Rightarrow> vec3 \<Rightarrow> scene \<Rightarrow> scene \<times> effect list" where
  "accelerate p delta currentVelocity s =
     (if xc currentVelocity < maxSpeed p
      then
        let imp = V3 (acceleration p * delta * cartWeight p) 0 0
        in (s\<lparr>cartRef := map_option (applyImpulse (cartWeight p) imp) (cartRef s)\<rparr>,
            [CartImpulse imp])
      else (s, []))"

text \<open>The free regime's two corrections of the box: lines 440 to 455.\<close>

definition correctTilt :: "body \<Rightarrow> body" where
  "correctTilt b =
     (let boxRotation = rotation b
      in if \<bar>qx boxRotation\<bar> > 0.01 \<or> \<bar>qz boxRotation\<bar> > 0.01
         then setRotation (Q4 0 (qy boxRotation) 0 (qw boxRotation)) b
         else b)"

definition dampBounce :: "body \<Rightarrow> body" where
  "dampBounce b =
     (let boxVelocity = linvel b
      in if \<bar>yc boxVelocity\<bar> > 1
         then setLinvel (V3 (xc boxVelocity) (yc boxVelocity * 0.7) (zc boxVelocity)) b
         else b)"

text \<open>Box management: lines 408 to 458. The cart handle is known to be present here.\<close>

definition boxManagement :: "vec3 \<Rightarrow> body \<Rightarrow> scene \<Rightarrow> scene" where
  "boxManagement currentVelocity cart s =
     (case boxRef s of
        None \<Rightarrow> s
      | Some box \<Rightarrow>
          let boxPosition = translation box;
              cartPosition = translation cart
          in if resetJustApplied s
             then
               let cartTopSurfaceHeight = yc cartPosition + (height CART_SIZE / 2);
                   boxYPosition = cartTopSurfaceHeight + (height BOX_SIZE / 2)
               in s\<lparr>boxRef := Some
                     (setRotation (Q4 0 0 0 1)
                       (setAngvel (V3 0 0 0)
                         (setLinvel (V3 (xc currentVelocity) 0 0)
                           (setTranslation (V3 (xc cartPosition) boxYPosition (zc cartPosition))
                              box))))\<rparr>
             else
               let isBoxAboveCart =
                     (\<bar>xc boxPosition - xc cartPosition\<bar> < 0.9
                      \<and> \<bar>zc boxPosition - zc cartPosition\<bar> < 0.4)
               in if isBoxAboveCart
                  then s\<lparr>boxRef := Some (dampBounce (correctTilt box))\<rparr>
                  else s)"

text \<open>
  Reverse impulse and the delayed completion call: lines 460 to 475. The speed tested is
  the one read at the start of the frame.
\<close>

definition decelerate ::
  "props \<Rightarrow> nat \<Rightarrow> real \<Rightarrow> vec3 \<Rightarrow> vec3 \<Rightarrow> scene \<Rightarrow> scene \<times> effect list" where
  "decelerate p now delta currentVelocity cartPosition s =
     (if xc cartPosition \<ge> distance p
      then
        let imp = V3 (- deceleration p * delta * cartWeight p) 0 0;
            s1 = s\<lparr>cartRef := map_option (applyImpulse (cartWeight p) imp) (cartRef s)\<rparr>;
            s2 = (if \<bar>xc currentVelocity\<bar> < 0.1
                  then snd (setTimeout CompleteCallback 100 now s1)
                  else s1)
        in (s2, [CartImpulse imp])
      else (s, []))"

text \<open>
  Telemetry and the immediate completion call: lines 509 to 533. A start time of 0 is
  falsy in the source's test, like a missing one.
\<close>

definition telemetry :: "props \<Rightarrow> nat \<Rightarrow> scene \<Rightarrow> effect list" where
  "telemetry p now s =
     (if isSimulating p \<and> cartRef s \<noteq> None \<and> onSimulationUpdate p
         \<and> simulationStartTime s \<noteq> None \<and> simulationStartTime s \<noteq> Some 0
         \<and> initialCartPosition s \<noteq> None
      then
        let currentTime = real now / 1000;
            elapsedTime = currentTime - the (simulationStartTime s);
            cartPosition = translation (the (cartRef s));
            cartVelocity = linvel (the (cartRef s));
            travelDistance = \<bar>xc cartPosition - xc (the (initialCartPosition s))\<bar>;
            currentSpeed = \<bar>xc cartVelocity\<bar>
        in SimulationUpdate elapsedTime travelDistance currentSpeed
           # (if travelDistance \<ge> distance p \<and> onSimulationComplete p
              then [SimulationComplete] else [])
      else [])"

text \<open>
  The part of the frame under \<open>if (cartRef.current)\<close>, in the order of the source: camera,
  forward impulse, wheel rotation, box, reverse impulse. The debug position of the front
  right wheel, the console log and the report of the selected object read the bodies and
  change nothing that is modelled; they are left out.
\<close>

definition cartBlock :: "props \<Rightarrow> nat \<Rightarrow> real \<Rightarrow> body \<Rightarrow> scene \<Rightarrow> scene \<times> effect list" where
  "cartBlock p now delta cart s =
     (let currentVelocity = linvel cart;
          cartPosition = translation cart;
          s1 = cameraFollow p cartPosition s;
          (s2, e2) = accelerate p delta currentVelocity s1;
          wheelRotationSpeed = xc currentVelocity * 10;
          s3 = s2\<lparr>wheelRotation := wheelRotation s2 + wheelRotationSpeed * delta\<rparr>;
          s4 = boxManagement currentVelocity cart s3;
          (s5, e5) = decelerate p now delta currentVelocity cartPosition s4
      in (s5, e2 @ e5))"

text \<open>
  \<open>useFrame\<close>: one call per rendered frame, with the clock reading \<open>now\<close> (what
  \<open>Date.now()\<close> returns, in milliseconds) and the frame duration \<open>delta\<close> in seconds.
\<close>

definition useFrame :: "props \<Rightarrow> nat \<Rightarrow> real \<Rightarrow> scene \<Rightarrow> scene \<times> effect list" where
  "useFrame p now delta s =
     (if \<not> physicsEnabled s \<or> \<not> isSimulating p then (s, [])
      else
        let (s1, e1) = (case cartRef s of
                          None \<Rightarrow> (s, [])
                        | Some cart \<Rightarrow> cartBlock p now delta cart s)
        in (s1, e1 @ telemetry p now s1))"

section \<open>Start, reset and the two reset timers\<close>

text \<open>\<open>resetSimulation\<close>: lines 225 to 281, setter by setter.\<close>

definition resetSimulation :: "scene \<Rightarrow> scene" where
  "resetSimulation s =
     (case cartRef s of
        None \<Rightarrow> s
      | Some cart0 \<Rightarrow>
          let cart1 = setRotation (Q4 0 0 0 1) cart0;
              cart2 = setAngvel (V3 0 0 0) (setLinvel (V3 0 0 0) cart1);
              cart3 = setTranslation (V3 (xc RECALCULATED_CART_POSITION)
                                         (yc RECALCULATED_CART_POSITION)
                                         (zc RECALCULATED_CART_POSITION)) (wakeUp cart2);
              cart4 = setAngvel (V3 0 0 0) (setLinvel (V3 0 0 0) cart3);
              cartPosition = translation cart4;
              cartTopSurfaceHeight = yc cartPosition + (height CART_SIZE / 2);
              boxYPosition = cartTopSurfaceHeight + (height BOX_SIZE / 2);
              s1 = s\<lparr>cartRef := Some cart4\<rparr>;
              s2 = (case boxRef s1 of
                      None \<Rightarrow> s1
                    | Some box0 \<Rightarrow>
                        let box1 = setRotation (Q4 0 0 0 1) box0;
                            box2 = setAngvel (V3 0 0 0) (setLinvel (V3 0 0 0) box1);
                            box3 = setTranslation (V3 (xc cartPosition) boxYPosition (zc cartPosition))
                                     (wakeUp box2);
                            box4 = setAngvel (V3 0 0 0) (setLinvel (V3 0 0 0) box3)
                        in s1\<lparr>boxRef := Some box4\<rparr>)
          in s2\<lparr>wheelRotation := 0\<rparr>)"

text \<open>
  The callback of the second timer (lines 204 to 208) and of the first (lines 183 to 209).
  The test \<open>if (resetTimerRef.current)\<close> is false for null and for the identifier 0.
\<close>

definition reenableStage :: "scene \<Rightarrow> scene" where
  "reenableStage s = s\<lparr>resetJustApplied := False, physicsEnabled := True, resetTimerRef := None\<rparr>"

definition resetStage :: "nat \<Rightarrow> scene \<Rightarrow> scene" where
  "resetStage now s =
     (let s1 = resetSimulation s;
          s2 = s1\<lparr>resetJustApplied := True\<rparr>;
          s3 = s2\<lparr>cam := (cam s2)\<lparr>position := initialCameraPosition s2\<rparr>\<rparr>;
          s4 = s3\<lparr>simulationStartCameraPosition := None,
                  simulationStartCartPosition := None,
                  cameraOffset := None,
                  simulationStartCameraDirection := None\<rparr>;
          s5 = (case resetTimerRef s4 of
                  None \<Rightarrow> s4
                | Some i \<Rightarrow> if i \<noteq> 0 then clearTimeout i s4 else s4);
          (i, s6) = setTimeout ReenableStage 1000 now s5
      in s6\<lparr>resetTimerRef := Some i\<rparr>)"

text \<open>
  The effect that runs when the property \<open>isSimulating\<close> has changed: lines 141 to 213.
  The first timer's identifier is not kept anywhere.
\<close>

definition onIsSimulatingChange :: "props \<Rightarrow> nat \<Rightarrow> scene \<Rightarrow> scene" where
  "onIsSimulatingChange p now s =
     (let s1 = (if \<not> prevIsSimulating s \<and> isSimulating p
                then (case cartRef s of
                        None \<Rightarrow> s
                      | Some cart \<Rightarrow>
                          let cartPosition = translation cart;
                              camPos = position (cam s)
                          in s\<lparr>simulationStartCartPosition :=
                                 Some (V3 (xc cartPosition) (yc cartPosition) (zc cartPosition)),
                               simulationStartTime := Some (real now / 1000),
                               initialCartPosition :=
                                 Some (V3 (xc cartPosition) (yc cartPosition) (zc cartPosition)),
                               simulationStartCameraPosition := Some camPos,
                               cameraOffset :=
                                 Some (V3 (xc camPos - xc cartPosition)
                                          (yc camPos - yc cartPosition)
                                          (zc camPos - zc cartPosition)),
                               simulationStartCameraDirection := Some (aimed (cam s))\<rparr>)
                else s);
          s2 = (if prevIsSimulating s \<and> \<not> isSimulating p
                then snd (setTimeout ResetStage 100 now
                       (s1\<lparr>simulationStartTime := None,
                           initialCartPosition := None,
                           physicsEnabled := False\<rparr>))
                else s1)
      in s2\<lparr>prevIsSimulating := isSimulating p\<rparr>)"

section \<open>The application around the scene\<close>

text \<open>
  The state of \<open>App\<close>: the properties it hands to the scene (the eight parameters,
  \<open>isSimulating\<close>, and both callbacks, which it always supplies), the pause flag and the
  three telemetry values it displays.
\<close>

record app =
  sceneProps :: props
  isPaused :: bool
  simulationTime :: real
  simulationDistance :: real
  simulationSpeed :: real

definition setIsSimulating :: "bool \<Rightarrow> app \<Rightarrow> app" where
  "setIsSimulating v a = a\<lparr>sceneProps := (sceneProps a)\<lparr>isSimulating := v\<rparr>\<rparr>"

definition handleStart :: "app \<Rightarrow> app" where
  "handleStart a =
     (setIsSimulating True
        (a\<lparr>simulationTime := 0, simulationDistance := 0, simulationSpeed := 0\<rparr>))
     \<lparr>isPaused := False\<rparr>"

definition handleStop :: "app \<Rightarrow> app" where
  "handleStop a = a\<lparr>isPaused := True\<rparr>"

definition handleReset :: "app \<Rightarrow> app" where
  "handleReset a =
     ((setIsSimulating False a)\<lparr>isPaused := False\<rparr>)
     \<lparr>simulationTime := 0, simulationDistance := 0, simulationSpeed := 0\<rparr>"

definition handleSimulationComplete :: "app \<Rightarrow> app" where
  "handleSimulationComplete a = setIsSimulating False a"

definition handleSimulationUpdate :: "real \<Rightarrow> real \<Rightarrow> real \<Rightarrow> app \<Rightarrow> app" where
  "handleSimulationUpdate t cartDistance cartSpeed a =
     a\<lparr>simulationTime := t, simulationDistance := cartDistance, simulationSpeed := cartSpeed\<rparr>"

text \<open>
  The distance line of the information panel; \<open>fmt\<close> stands for \<open>toFixed(1)\<close>.
\<close>

definition displayedDistance :: "(real \<Rightarrow> string) \<Rightarrow> app \<Rightarrow> string" where
  "displayedDistance fmt a =
     (if isSimulating (sceneProps a) \<or> isPaused a then fmt (simulationDistance a) else ''0.0'')"

section \<open>Events: clicks, frames, physics steps and the passing of time\<close>

text \<open>
  The whole system: application, scene, the clock in milliseconds, and a counter of the
  calls of \<open>onSimulationComplete\<close> made so far, kept for the statements about them.
\<close>

record world =
  appState :: app
  sceneState :: scene
  clock :: nat
  completeCalls :: nat

text \<open>
  After the application's state has changed, the scene is rendered again; its effect runs
  only when \<open>isSimulating\<close> differs from the value of the previous rendering.
\<close>

definition rerender :: "bool \<Rightarrow> world \<Rightarrow> world" where
  "rerender before w =
     (if isSimulating (sceneProps (appState w)) = before then w
      else w\<lparr>sceneState :=
               onIsSimulatingChange (sceneProps (appState w)) (clock w) (sceneState w)\<rparr>)"

definition dispatch :: "effect \<Rightarrow> world \<Rightarrow> world" where
  "dispatch e w =
     (case e of
        CartImpulse v \<Rightarrow> w
      | SimulationUpdate t d v \<Rightarrow> w\<lparr>appState := handleSimulationUpdate t d v (appState w)\<rparr>
      | SimulationComplete \<Rightarrow>
          rerender (isSimulating (sceneProps (appState w)))
            (w\<lparr>appState := handleSimulationComplete (appState w),
               completeCalls := completeCalls w + 1\<rparr>))"

text \<open>
  A timer that has come due is removed and its callback runs at its due time. The delayed
  completion call is \<open>onSimulationComplete?.()\<close>: it does nothing when the callback is not
  given.
\<close>

definition fire :: "timer \<Rightarrow> world \<Rightarrow> world" where
  "fire tm w =
     (let w1 = w\<lparr>clock := max (clock w) (due tm),
                  sceneState := clearTimeout (tid tm) (sceneState w)\<rparr>
      in case action tm of
           ResetStage \<Rightarrow> w1\<lparr>sceneState := resetStage (clock w1) (sceneState w1)\<rparr>
         | ReenableStage \<Rightarrow> w1\<lparr>sceneState := reenableStage (sceneState w1)\<rparr>
         | CompleteCallback \<Rightarrow>
             (if onSimulationComplete (sceneProps (appState w1))
              then dispatch SimulationComplete w1 else w1))"

text \<open>The pending timer that is due first at or before \<open>t\<close>; the earlier one wins a tie.\<close>

fun nextDue :: "nat \<Rightarrow> timer list \<Rightarrow> timer option" where
  "nextDue t [] = None"
| "nextDue t (tm # tms) =
     (case nextDue t tms of
        None \<Rightarrow> (if due tm \<le> t then Some tm else None)
      | Some tm' \<Rightarrow> (if due tm \<le> due tm' then Some tm else Some tm'))"

text \<open>
  Every firing takes from the pending timers more than it adds: a completion call may
  start a reset (one first-stage timer), a first stage starts one second stage.
\<close>

fun timerWeight :: "timer_action \<Rightarrow> nat" where
  "timerWeight CompleteCallback = 3"
| "timerWeight ResetStage = 2"
| "timerWeight ReenableStage = 1"

definition pendingWeight :: "world \<Rightarrow> nat" where
  "pendingWeight w = sum_list (map (\<lambda>tm. timerWeight (action tm)) (timers (sceneState w)))"

lemma nextDue_Some: "nextDue t tms = Some tm \<Longrightarrow> tm \<in> set tms \<and> due tm \<le> t"
  by (induction tms arbitrary: tm) (auto split: option.splits if_splits)

lemma weight_filter_le:
  "sum_list (map f (filter P xs)) \<le> (sum_list (map f xs) :: nat)"
  by (induction xs) auto

lemma weight_filter_mem:
  "tm \<in> set xs \<Longrightarrow> \<not> P tm \<Longrightarrow>
     sum_list (map f (filter P xs)) + f tm \<le> (sum_list (map f xs) :: nat)"
proof (induction xs)
  case Nil
  then show ?case by simp
next
  case (Cons a xs)
  show ?case
  proof (cases "a = tm")
    case True
    with Cons.prems weight_filter_le [of f P xs] show ?thesis by simp
  next
    case False
    with Cons have "sum_list (map f (filter P xs)) + f tm \<le> sum_list (map f xs)" by simp
    then show ?thesis by simp
  qed
qed

lemma timers_resetSimulation: "timers (resetSimulation s) = timers s"
  by (simp add: resetSimulation_def Let_def split: option.splits)

lemma resetTimerRef_resetSimulation: "resetTimerRef (resetSimulation s) = resetTimerRef s"
  by (simp add: resetSimulation_def Let_def split: option.splits)

lemma weight_resetStage:
  "sum_list (map (\<lambda>tm. timerWeight (action tm)) (timers (resetStage now s)))
     \<le> sum_list (map (\<lambda>tm. timerWeight (action tm)) (timers s)) + 1"
  using weight_filter_le [of "\<lambda>tm. timerWeight (action tm)" _ "timers s"]
  by (simp add: resetStage_def Let_def setTimeout_def clearTimeout_def timers_resetSimulation
        resetTimerRef_resetSimulation split: option.splits prod.splits)

lemma weight_onIsSimulatingChange:
  "sum_list (map (\<lambda>tm. timerWeight (action tm)) (timers (onIsSimulatingChange p now s)))
     \<le> sum_list (map (\<lambda>tm. timerWeight (action tm)) (timers s)) + 2"
  by (simp add: onIsSimulatingChange_def Let_def setTimeout_def split: option.splits)

lemma fire_decreases:
  assumes "tm \<in> set (timers (sceneState w))"
  shows "pendingWeight (fire tm w) < pendingWeight w"
proof -
  let ?f = "\<lambda>tm. timerWeight (action tm)"
  let ?s1 = "clearTimeout (tid tm) (sceneState w)"
  have cleared: "sum_list (map ?f (timers ?s1)) + ?f tm \<le> pendingWeight w"
    unfolding pendingWeight_def clearTimeout_def
    using weight_filter_mem [OF assms, of "\<lambda>t. tid t \<noteq> tid tm" ?f] by simp
  show ?thesis
  proof (cases "action tm")
    case ResetStage
    with cleared weight_resetStage [of "max (clock w) (due tm)" ?s1]
    show ?thesis by (simp add: fire_def pendingWeight_def Let_def)
  next
    case ReenableStage
    with cleared show ?thesis
      by (simp add: fire_def pendingWeight_def Let_def reenableStage_def)
  next
    case CompleteCallback
    with cleared
      weight_onIsSimulatingChange [of "sceneProps (handleSimulationComplete (appState w))"
        "max (clock w) (due tm)" ?s1]
    show ?thesis
      by (simp add: fire_def pendingWeight_def Let_def dispatch_def rerender_def)
  qed
qed

text \<open>
  Time passes up to the clock reading \<open>t\<close>: the timers that come due fire one after the
  other, in the order of their due times, each seeing what the earlier ones left.
\<close>

function advance :: "nat \<Rightarrow> world \<Rightarrow> world" where
  "advance t w =
     (case nextDue t (timers (sceneState w)) of
        None \<Rightarrow> w\<lparr>clock := max (clock w) t\<rparr>
      | Some tm \<Rightarrow> advance t (fire tm w))"
  by pat_completeness auto
termination
proof (relation "measure (\<lambda>(t, w). pendingWeight w)")
  show "wf (measure (\<lambda>(t, w). pendingWeight w))" by simp
next
  fix t :: nat and w :: world and tm :: timer
  assume "nextDue t (timers (sceneState w)) = Some tm"
  then have "tm \<in> set (timers (sceneState w))" by (simp add: nextDue_Some)
  then show "((t, fire tm w), (t, w)) \<in> measure (\<lambda>(t, w). pendingWeight w)"
    by (simp add: fire_decreases)
qed

text \<open>
  What can happen: a click on one of the three buttons (a disabled button does nothing),
  a step of the physics engine, which leaves the two bodies in some new state, a rendered
  frame with its duration, and the passing of some milliseconds.
\<close>

datatype event =
  ClickStart
  | ClickStop
  | ClickReset
  | Physics "body option" "body option"
  | Frame real
  | Elapse nat

definition step :: "event \<Rightarrow> world \<Rightarrow> world" where
  "step ev w =
     (let a = appState w;
          simulating = isSimulating (sceneProps a)
      in case ev of
           ClickStart \<Rightarrow>
             if simulating \<and> \<not> isPaused a then w
             else rerender simulating (w\<lparr>appState := handleStart a\<rparr>)
         | ClickStop \<Rightarrow>
             if \<not> simulating then w else w\<lparr>appState := handleStop a\<rparr>
         | ClickReset \<Rightarrow>
             if \<not> simulating \<and> \<not> isPaused a then w
             else rerender simulating (w\<lparr>appState := handleReset a\<rparr>)
         | Physics cart box \<Rightarrow>
             w\<lparr>sceneState := (sceneState w)\<lparr>cartRef := cart, boxRef := box\<rparr>\<rparr>
         | Frame delta \<Rightarrow>
             (let (s', effects) = useFrame (sceneProps a) (clock w) delta (sceneState w)
              in fold dispatch effects (w\<lparr>sceneState := s'\<rparr>))
         | Elapse ms \<Rightarrow> advance (clock w + ms) w)"

definition run :: "event list \<Rightarrow> world \<Rightarrow> world" where
  "run evs w = fold step evs w"

text \<open>
  The state after mounting, with the initial values of \<open>App\<close> and of the scene: both
  bodies at rest at their recalculated positions, the camera at (10, 10, 10).
\<close>

definition restingBody :: "vec3 \<Rightarrow> body" where
  "restingBody p = \<lparr>translation = p, linvel = V3 0 0 0, angvel = V3 0 0 0, rotation = Q4 0 0 0 1\<rparr>"

definition initialApp :: app where
  "initialApp =
     \<lparr>sceneProps = \<lparr>floorFriction = 0.5, cartBoxFriction = 0.5, cartWeight = 10, boxWeight = 5,
                    maxSpeed = 10, acceleration = 5, deceleration = 3, distance = 100,
                    isSimulating = False, onSimulationComplete = True,
                    onSimulationUpdate = True\<rparr>,
      isPaused = False, simulationTime = 0, simulationDistance = 0, simulationSpeed = 0\<rparr>"

definition initialScene :: scene where
  "initialScene =
     \<lparr>cartRef = Some (restingBody RECALCULATED_CART_POSITION),
      boxRef = Some (restingBody RECALCULATED_BOX_POSITION),
      prevIsSimulating = False, resetJustApplied = False, resetTimerRef = None,
      physicsEnabled = True, wheelRotation = 0,
      cam = \<lparr>position = V3 10 10 10, aimed = NoAim\<rparr>,
      initialCameraPosition = V3 10 10 10,
      simulationStartCameraPosition = None, simulationStartCartPosition = None,
      cameraOffset = None, simulationStartCameraDirection = None,
      simulationStartTime = None, initialCartPosition = None,
      timers = [], nextTimerId = 1\<rparr>"

definition initialWorld :: "nat \<Rightarrow> world" where
  "initialWorld t0 = \<lparr>appState = initialApp, sceneState = initialScene, clock = t0, completeCalls = 0\<rparr>"

section \<open>Observations and example states\<close>

text \<open>What a frame did, read off its list of effects.\<close>

fun impulsesOf :: "effect list \<Rightarrow> vec3 list" where
  "impulsesOf [] = []"
| "impulsesOf (CartImpulse v # es) = v # impulsesOf es"
| "impulsesOf (e # es) = impulsesOf es"

fun updatesOf :: "effect list \<Rightarrow> (real \<times> real \<times> real) list" where
  "updatesOf [] = []"
| "updatesOf (SimulationUpdate t d v # es) = (t, d, v) # updatesOf es"
| "updatesOf (e # es) = updatesOf es"

fun completionsOf :: "effect list \<Rightarrow> nat" where
  "completionsOf [] = 0"
| "completionsOf (SimulationComplete # es) = Suc (completionsOf es)"
| "completionsOf (e # es) = completionsOf es"

definition distancesOf :: "effect list \<Rightarrow> real list" where
  "distancesOf es = map (\<lambda>(t, d, v). d) (updatesOf es)"


definition quatNorm :: "quat \<Rightarrow> real" where
  "quatNorm q = sqrt ((qx q)\<^sup>2 + (qy q)\<^sup>2 + (qz q)\<^sup>2 + (qw q)\<^sup>2)"

text \<open>
  The pending second-stage timers, and the bookkeeping that holds in every reachable state:
  identifiers are fresh, nonzero and distinct, and a pending second-stage timer is the one
  \<open>resetTimerRef\<close> names.
\<close>

definition pendingReenable :: "scene \<Rightarrow> timer list" where
  "pendingReenable s = filter (\<lambda>tm. action tm = ReenableStage) (timers s)"

definition timersConsistent :: "scene \<Rightarrow> bool" where
  "timersConsistent s \<longleftrightarrow>
     nextTimerId s \<noteq> 0 \<and> distinct (map tid (timers s))
     \<and> (\<forall>tm \<in> set (timers s).
           tid tm \<noteq> 0 \<and> tid tm < nextTimerId s
           \<and> (action tm = ReenableStage \<longrightarrow> resetTimerRef s = Some (tid tm)))"

text \<open>
  Example states: the default parameters while simulating (acceleration 5, deceleration 3,
  maximal speed 10, cart mass 10, target distance 100), a cart at a given position and
  speed along x, and the scene as it is after a start at clock reading 1000 from the
  initial state, with the two bodies then put where the physics engine has moved them.
\<close>

definition runningProps :: props where
  "runningProps = (sceneProps initialApp)\<lparr>isSimulating := True\<rparr>"

definition cartAt :: "real \<Rightarrow> real \<Rightarrow> body" where
  "cartAt x v = (restingBody (V3 x CART_CENTER_Y 0))\<lparr>linvel := V3 v 0 0\<rparr>"

definition box0 :: body where
  "box0 = restingBody RECALCULATED_BOX_POSITION"

definition tiltedBox :: body where
  "tiltedBox = \<lparr>translation = V3 0.5 0.8 0, linvel = V3 0.25 2 0, angvel = V3 0 0 0,
                 rotation = Q4 0.6 0 0 0.8\<rparr>"

definition runningScene :: "body \<Rightarrow> body \<Rightarrow> scene" where
  "runningScene cart box =
     (onIsSimulatingChange runningProps 1000 initialScene)\<lparr>cartRef := Some cart, boxRef := Some box\<rparr>"

section \<open>Lemmas about the frame\<close>

lemma impulsesOf_append: "impulsesOf (xs @ ys) = impulsesOf xs @ impulsesOf ys"
  by (induction xs rule: impulsesOf.induct) auto

lemma updatesOf_append: "updatesOf (xs @ ys) = updatesOf xs @ updatesOf ys"
  by (induction xs rule: updatesOf.induct) auto

lemma completionsOf_append: "completionsOf (xs @ ys) = completionsOf xs + completionsOf ys"
  by (induction xs rule: completionsOf.induct) auto

lemma impulsesOf_telemetry: "impulsesOf (telemetry p now s) = []"
  by (simp add: telemetry_def Let_def)

lemma cartRef_cameraFollow: "cartRef (cameraFollow p c s) = cartRef s"
  by (simp add: cameraFollow_def Let_def)

lemma cartRef_boxManagement: "cartRef (boxManagement v c s) = cartRef s"
  by (simp add: boxManagement_def Let_def split: option.splits)

lemma useFrame_running:
  "physicsEnabled s \<Longrightarrow> isSimulating p \<Longrightarrow> cartRef s = Some cart \<Longrightarrow>
   useFrame p now delta s =
     (fst (cartBlock p now delta cart s),
      snd (cartBlock p now delta cart s) @ telemetry p now (fst (cartBlock p now delta cart s)))"
  by (simp add: useFrame_def split: prod.splits)

lemma cartBlock_effects:
  "snd (cartBlock p now delta cart s) =
     (if xc (linvel cart) < maxSpeed p
      then [CartImpulse (V3 (acceleration p * delta * cartWeight p) 0 0)] else [])
     @ (if xc (translation cart) \<ge> distance p
        then [CartImpulse (V3 (- deceleration p * delta * cartWeight p) 0 0)] else [])"
  by (simp add: cartBlock_def accelerate_def decelerate_def Let_def split: prod.splits)

lemma cartBlock_cartRef:
  "cartRef s = Some cart \<Longrightarrow>
   cartRef (fst (cartBlock p now delta cart s)) =
     Some ((if xc (translation cart) \<ge> distance p
            then applyImpulse (cartWeight p) (V3 (- deceleration p * delta * cartWeight p) 0 0)
            else id)
           ((if xc (linvel cart) < maxSpeed p
             then applyImpulse (cartWeight p) (V3 (acceleration p * delta * cartWeight p) 0 0)
             else id) cart))"
  by (simp add: cartBlock_def accelerate_def decelerate_def Let_def setTimeout_def
      cartRef_cameraFollow cartRef_boxManagement split: prod.splits)

lemma frame_impulses:
  assumes "physicsEnabled s" "isSimulating p" "cartRef s = Some cart"
  shows "impulsesOf (snd (useFrame p now delta s)) =
     (if xc (linvel cart) < maxSpeed p
      then [V3 (acceleration p * delta * cartWeight p) 0 0] else [])
     @ (if xc (translation cart) \<ge> distance p
        then [V3 (- deceleration p * delta * cartWeight p) 0 0] else [])"
  by (simp add: useFrame_running [OF assms] cartBlock_effects impulsesOf_append impulsesOf_telemetry)

lemma frame_cart_velocity:
  assumes "physicsEnabled s" "isSimulating p" "cartRef s = Some cart" "cartWeight p \<noteq> 0"
  shows "\<exists>cart'. cartRef (fst (useFrame p now delta s)) = Some cart'
     \<and> translation cart' = translation cart
     \<and> xc (linvel cart') = xc (linvel cart)
         + (if xc (linvel cart) < maxSpeed p then acceleration p * delta else 0)
         - (if xc (translation cart) \<ge> distance p then deceleration p * delta else 0)"
  using assms(4)
  by (simp add: useFrame_running [OF assms(1-3)] cartBlock_cartRef [OF assms(3)]
       applyImpulse_def V3_def)


lemma boxRef_cartBlock:
  "boxRef (fst (cartBlock p now delta cart s)) = boxRef (boxManagement (linvel cart) cart s)"
  by (simp add: cartBlock_def accelerate_def decelerate_def Let_def setTimeout_def
      cameraFollow_def boxManagement_def split: prod.splits option.splits)


lemma timers_cartBlock:
  "timers (fst (cartBlock p now delta cart s)) =
     timers s @ (if xc (translation cart) \<ge> distance p \<and> \<bar>xc (linvel cart)\<bar> < 0.1
                 then [\<lparr>tid = nextTimerId s, due = now + 100, action = CompleteCallback\<rparr>]
                 else [])"
  by (simp add: cartBlock_def accelerate_def decelerate_def Let_def setTimeout_def
      cameraFollow_def boxManagement_def split: prod.splits option.splits)

lemma updatesOf_cartBlock: "updatesOf (snd (cartBlock p now delta cart s)) = []"
  by (simp add: cartBlock_effects)

lemma completionsOf_cartBlock: "completionsOf (snd (cartBlock p now delta cart s)) = 0"
  by (simp add: cartBlock_effects)

lemma startTime_cartBlock:
  "simulationStartTime (fst (cartBlock p now delta cart s)) = simulationStartTime s"
  by (simp add: cartBlock_def accelerate_def decelerate_def Let_def setTimeout_def
      cameraFollow_def boxManagement_def split: prod.splits option.splits)

lemma initialCartPosition_cartBlock:
  "initialCartPosition (fst (cartBlock p now delta cart s)) = initialCartPosition s"
  by (simp add: cartBlock_def accelerate_def decelerate_def Let_def setTimeout_def
      cameraFollow_def boxManagement_def split: prod.splits option.splits)

lemma translation_cartBlock:
  "cartRef s = Some cart \<Longrightarrow>
   \<exists>cart'. cartRef (fst (cartBlock p now delta cart s)) = Some cart'
      \<and> translation cart' = translation cart"
  by (simp add: cartBlock_cartRef applyImpulse_def)

lemma frame_telemetry:
  assumes "physicsEnabled s" "isSimulating p" "cartRef s = Some cart"
    and "onSimulationUpdate p" "simulationStartTime s = Some t0" "t0 \<noteq> 0"
    and "initialCartPosition s = Some x0"
  shows "snd (useFrame p now delta s) = snd (cartBlock p now delta cart s) @
      SimulationUpdate (real now / 1000 - t0) \<bar>xc (translation cart) - xc x0\<bar>
          \<bar>xc (linvel (the (cartRef (fst (useFrame p now delta s)))))\<bar>
      # (if \<bar>xc (translation cart) - xc x0\<bar> \<ge> distance p \<and> onSimulationComplete p
         then [SimulationComplete] else [])"
proof -
  obtain cart' where c: "cartRef (fst (cartBlock p now delta cart s)) = Some cart'"
    "translation cart' = translation cart"
    using translation_cartBlock [OF assms(3)] by blast
  show ?thesis
    using assms(2,4-7) c
    by (simp add: useFrame_running [OF assms(1-3)] telemetry_def Let_def
        startTime_cartBlock initialCartPosition_cartBlock)
qed

section \<open>Lemmas about timers and events\<close>

declare advance.simps [simp del]

lemma advance_None:
  "nextDue t (timers (sceneState w)) = None \<Longrightarrow> advance t w = w\<lparr>clock := max (clock w) t\<rparr>"
  by (simp add: advance.simps)

lemma advance_Some:
  "nextDue t (timers (sceneState w)) = Some tm \<Longrightarrow> advance t w = advance t (fire tm w)"
  by (simp add: advance.simps)

lemmas example_defs =
  runningProps_def runningScene_def cartAt_def box0_def tiltedBox_def initialApp_def
  initialScene_def initialWorld_def restingBody_def

lemmas frame_defs =
  useFrame_def cartBlock_def cameraFollow_def accelerate_def decelerate_def boxManagement_def
  correctTilt_def dampBounce_def telemetry_def applyImpulse_def setTimeout_def clearTimeout_def
  setTranslation_def setLinvel_def setAngvel_def setRotation_def wakeUp_def

lemmas world_defs =
  run_def step_def rerender_def dispatch_def fire_def onIsSimulatingChange_def resetStage_def
  reenableStage_def resetSimulation_def handleStart_def handleStop_def handleReset_def
  handleSimulationComplete_def handleSimulationUpdate_def setIsSimulating_def

lemma consistent_same:
  "timersConsistent s \<Longrightarrow> timers s' = timers s \<Longrightarrow> nextTimerId s' = nextTimerId s \<Longrightarrow>
   resetTimerRef s' = resetTimerRef s \<Longrightarrow> timersConsistent s'"
  by (simp add: timersConsistent_def)

lemma consistent_append:
  assumes "timersConsistent s" "a \<noteq> ReenableStage"
    and "timers s' = timers s @ [\<lparr>tid = nextTimerId s, due = d, action = a\<rparr>]"
    and "nextTimerId s' = nextTimerId s + 1" "resetTimerRef s' = resetTimerRef s"
  shows "timersConsistent s'"
  using assms by (fastforce simp add: timersConsistent_def)

lemma consistent_clearTimeout: "timersConsistent s \<Longrightarrow> timersConsistent (clearTimeout i s)"
  by (auto simp add: timersConsistent_def clearTimeout_def distinct_map_filter)

lemma useFrame_timer_state:
  "resetTimerRef (fst (useFrame p now delta s)) = resetTimerRef s
   \<and> (timers (fst (useFrame p now delta s)) = timers s
        \<and> nextTimerId (fst (useFrame p now delta s)) = nextTimerId s
      \<or> timers (fst (useFrame p now delta s))
           = timers s @ [\<lparr>tid = nextTimerId s, due = now + 100, action = CompleteCallback\<rparr>]
        \<and> nextTimerId (fst (useFrame p now delta s)) = nextTimerId s + 1)"
  by (simp add: useFrame_def cartBlock_def accelerate_def decelerate_def Let_def setTimeout_def
      cameraFollow_def boxManagement_def split: prod.splits option.splits)

lemma consistent_useFrame:
  "timersConsistent s \<Longrightarrow> timersConsistent (fst (useFrame p now delta s))"
  using useFrame_timer_state [of p now delta s]
  by (metis consistent_same consistent_append timer_action.distinct(5))

lemma onIsSimulatingChange_timer_state:
  "resetTimerRef (onIsSimulatingChange p now s) = resetTimerRef s
   \<and> (timers (onIsSimulatingChange p now s) = timers s
        \<and> nextTimerId (onIsSimulatingChange p now s) = nextTimerId s
      \<or> timers (onIsSimulatingChange p now s)
           = timers s @ [\<lparr>tid = nextTimerId s, due = now + 100, action = ResetStage\<rparr>]
        \<and> nextTimerId (onIsSimulatingChange p now s) = nextTimerId s + 1)"
  by (simp add: onIsSimulatingChange_def Let_def setTimeout_def split: option.splits)

lemma consistent_onIsSimulatingChange:
  "timersConsistent s \<Longrightarrow> timersConsistent (onIsSimulatingChange p now s)"
  using onIsSimulatingChange_timer_state [of p now s]
  by (metis consistent_same consistent_append timer_action.distinct(1))

lemma consistent_rerender:
  "timersConsistent (sceneState w) \<Longrightarrow> timersConsistent (sceneState (rerender b w))"
  by (simp add: rerender_def consistent_onIsSimulatingChange)

lemma consistent_dispatch:
  "timersConsistent (sceneState w) \<Longrightarrow> timersConsistent (sceneState (dispatch e w))"
  by (cases e) (simp_all add: dispatch_def consistent_rerender)

lemma consistent_fold_dispatch:
  "timersConsistent (sceneState w) \<Longrightarrow> timersConsistent (sceneState (fold dispatch es w))"
  by (induction es arbitrary: w) (simp_all add: consistent_dispatch)

lemma resetStage_timers:
  "timers (resetStage now s) =
     (case resetTimerRef s of
        None \<Rightarrow> timers s
      | Some i \<Rightarrow> if i \<noteq> 0 then filter (\<lambda>t. tid t \<noteq> i) (timers s) else timers s)
     @ [\<lparr>tid = nextTimerId s, due = now + 1000, action = ReenableStage\<rparr>]
   \<and> resetTimerRef (resetStage now s) = Some (nextTimerId s)
   \<and> nextTimerId (resetStage now s) = nextTimerId s + 1"
  by (simp add: resetStage_def Let_def setTimeout_def clearTimeout_def timers_resetSimulation
      resetTimerRef_resetSimulation resetSimulation_def split: option.splits prod.splits)

lemma resetStage_replaces:
  assumes "timersConsistent s"
  shows "pendingReenable (resetStage now s)
           = [\<lparr>tid = nextTimerId s, due = now + 1000, action = ReenableStage\<rparr>]"
proof -
  have "filter (\<lambda>tm. action tm = ReenableStage)
          (case resetTimerRef s of
             None \<Rightarrow> timers s
           | Some i \<Rightarrow> if i \<noteq> 0 then filter (\<lambda>t. tid t \<noteq> i) (timers s) else timers s) = []"
    using assms
    by (auto simp add: timersConsistent_def filter_empty_conv split: option.splits)
  then show ?thesis
    by (simp add: pendingReenable_def resetStage_timers)
qed

lemma consistent_resetStage:
  assumes "timersConsistent s"
  shows "timersConsistent (resetStage now s)"
proof -
  let ?old = "case resetTimerRef s of
             None \<Rightarrow> timers s
           | Some i \<Rightarrow> if i \<noteq> 0 then filter (\<lambda>t. tid t \<noteq> i) (timers s) else timers s"
  have sub: "set ?old \<subseteq> set (timers s)" by (auto split: option.splits)
  have d: "distinct (map tid ?old)"
    using assms by (auto simp add: timersConsistent_def distinct_map_filter split: option.splits)
  have none: "\<forall>tm \<in> set ?old. action tm \<noteq> ReenableStage"
    using assms by (auto simp add: timersConsistent_def split: option.splits)
  have bound: "\<forall>tm \<in> set ?old. tid tm \<noteq> 0 \<and> tid tm < nextTimerId s"
    using assms sub by (auto simp add: timersConsistent_def)
  have n0: "nextTimerId s \<noteq> 0" using assms by (simp add: timersConsistent_def)
  show ?thesis
    unfolding timersConsistent_def
    using d none bound n0 by (auto simp add: resetStage_timers)
qed

lemma consistent_fire:
  assumes "timersConsistent (sceneState w)" "tm \<in> set (timers (sceneState w))"
  shows "timersConsistent (sceneState (fire tm w))"
proof -
  let ?s1 = "clearTimeout (tid tm) (sceneState w)"
  have c1: "timersConsistent ?s1" using assms(1) by (rule consistent_clearTimeout)
  show ?thesis
  proof (cases "action tm")
    case ResetStage
    then show ?thesis using c1 by (simp add: fire_def Let_def consistent_resetStage)
  next
    case ReenableStage
    with assms have ref: "resetTimerRef (sceneState w) = Some (tid tm)"
      by (simp add: timersConsistent_def)
    have "\<forall>t \<in> set (timers ?s1). action t \<noteq> ReenableStage"
      using assms(1) ref by (auto simp add: timersConsistent_def clearTimeout_def)
    with c1 have "timersConsistent (reenableStage ?s1)"
      by (auto simp add: timersConsistent_def reenableStage_def)
    with ReenableStage show ?thesis by (simp add: fire_def Let_def)
  next
    case CompleteCallback
    have "timersConsistent (sceneState (dispatch SimulationComplete
            (w\<lparr>clock := max (clock w) (due tm), sceneState := ?s1\<rparr>)))"
      using c1 by (simp add: consistent_dispatch)
    with CompleteCallback c1 show ?thesis by (simp add: fire_def Let_def)
  qed
qed

lemma consistent_advance:
  "timersConsistent (sceneState w) \<Longrightarrow> timersConsistent (sceneState (advance t w))"
proof (induction t w rule: advance.induct)
  case (1 t w)
  show ?case
  proof (cases "nextDue t (timers (sceneState w))")
    case None
    with "1.prems" show ?thesis by (simp add: advance_None)
  next
    case (Some tm)
    then have "tm \<in> set (timers (sceneState w))" by (simp add: nextDue_Some)
    with "1.prems" have "timersConsistent (sceneState (fire tm w))" by (rule consistent_fire)
    with "1.IH" Some show ?thesis by (simp add: advance_Some)
  qed
qed

lemma consistent_step:
  assumes "timersConsistent (sceneState w)"
  shows "timersConsistent (sceneState (step ev w))"
proof (cases ev)
  case ClickStart
  with assms show ?thesis by (simp add: step_def Let_def consistent_rerender)
next
  case ClickStop
  with assms show ?thesis by (simp add: step_def Let_def)
next
  case ClickReset
  with assms show ?thesis by (simp add: step_def Let_def consistent_rerender)
next
  case (Physics c b)
  with assms show ?thesis by (simp add: step_def Let_def timersConsistent_def)
next
  case (Frame delta)
  with assms show ?thesis
    using consistent_useFrame [OF assms, of "sceneProps (appState w)" "clock w" delta]
    by (simp add: step_def Let_def consistent_fold_dispatch case_prod_beta)
next
  case (Elapse ms)
  with assms show ?thesis by (simp add: step_def Let_def consistent_advance)
qed

lemma consistent_run:
  "timersConsistent (sceneState w) \<Longrightarrow> timersConsistent (sceneState (run evs w))"
  unfolding run_def by (induction evs arbitrary: w) (simp_all add: consistent_step)

lemma consistent_initial: "timersConsistent (sceneState (initialWorld t0))"
  by (simp add: initialWorld_def initialScene_def timersConsistent_def)

lemma consistent_at_most_one:
  assumes "timersConsistent s"
  shows "length (pendingReenable s) \<le> 1"
proof -
  have "distinct (map tid (pendingReenable s))"
    using assms by (simp add: timersConsistent_def pendingReenable_def distinct_map_filter)
  moreover have "\<forall>tm \<in> set (pendingReenable s). resetTimerRef s = Some (tid tm)"
    using assms by (simp add: timersConsistent_def pendingReenable_def)
  then have "set (map tid (pendingReenable s)) \<subseteq> {the (resetTimerRef s)}"
    by auto
  ultimately have "length (map tid (pendingReenable s)) \<le> card {the (resetTimerRef s)}"
    by (metis distinct_card card_mono finite.emptyI finite.insertI)
  then show ?thesis by simp
qed

section \<open>Evaluating the example states\<close>

lemma runningScene_simps:
  "physicsEnabled (runningScene c b)" "cartRef (runningScene c b) = Some c"
  "boxRef (runningScene c b) = Some b" "\<not> resetJustApplied (runningScene c b)"
  "simulationStartTime (runningScene c b) = Some 1"
  "initialCartPosition (runningScene c b) = Some (V3 0 CART_CENTER_Y 0)"
  "simulationStartCameraPosition (runningScene c b) = Some (V3 10 10 10)"
  "cameraOffset (runningScene c b) = Some (V3 10 (10 - CART_CENTER_Y) 10)"
  "simulationStartCameraDirection (runningScene c b) = Some NoAim"
  "cam (runningScene c b) = \<lparr>position = V3 10 10 10, aimed = NoAim\<rparr>"
  "timers (runningScene c b) = []" "nextTimerId (runningScene c b) = 1"
  by (simp_all add: example_defs onIsSimulatingChange_def Let_def geometry_defs)

lemma runningProps_simps:
  "isSimulating runningProps" "onSimulationUpdate runningProps" "onSimulationComplete runningProps"
  "maxSpeed runningProps = 10" "acceleration runningProps = 5" "deceleration runningProps = 3"
  "cartWeight runningProps = 10" "distance runningProps = 100"
  by (simp_all add: example_defs)

lemma cartAt_simps:
  "translation (cartAt x v) = V3 x CART_CENTER_Y 0" "linvel (cartAt x v) = V3 v 0 0"
  by (simp_all add: cartAt_def restingBody_def)

lemma V3_sel: "xc (V3 a b c) = a" "yc (V3 a b c) = b" "zc (V3 a b c) = c"
  by (simp_all add: V3_def)

lemma reset_bodies:
  assumes "cartRef s = Some cart" "boxRef s = Some box"
  shows "cartRef (resetSimulation s) = Some (restingBody RECALCULATED_CART_POSITION)
    \<and> boxRef (resetSimulation s) =
        Some (restingBody (V3 (xc RECALCULATED_CART_POSITION)
                              (yc RECALCULATED_CART_POSITION + height CART_SIZE / 2
                                 + height BOX_SIZE / 2)
                              (zc RECALCULATED_CART_POSITION)))
    \<and> cartRef (resetStage now s) = cartRef (resetSimulation s)
    \<and> boxRef (resetStage now s) = boxRef (resetSimulation s)"
  using assms
  by (simp add: resetSimulation_def resetStage_def Let_def setRotation_def setLinvel_def
       setAngvel_def setTranslation_def wakeUp_def restingBody_def clearTimeout_def
       setTimeout_def V3_def RECALCULATED_CART_POSITION_def split: option.splits prod.splits)

section \<open>Claims\<close>

text \<open>
  C1 (as amended). The claim says that each run ends with exactly one call of
  \<open>onSimulationComplete\<close>. The scene has no record of a call having been made or
  scheduled. What holds: a frame that runs (physics enabled, simulating, cart present)
  schedules one call 100 ms later exactly when the cart's x is at or beyond the target
  distance and the speed read at the start of the frame is below 0.1 in magnitude, and it
  calls the callback at once, in the same frame and without delay, exactly when telemetry is
  emitted, the callback is given and the travel distance from the start position has
  reached the target distance; every scheduled timer that fires calls the callback if it
  is given. Nothing limits these calls to one per run.
\<close>

theorem C1_completion_calls:
  assumes "physicsEnabled s" "isSimulating p" "cartRef s = Some cart"
  shows "timers (fst (useFrame p now delta s)) =
           timers s @ (if xc (translation cart) \<ge> distance p \<and> \<bar>xc (linvel cart)\<bar> < 0.1
                       then [\<lparr>tid = nextTimerId s, due = now + 100, action = CompleteCallback\<rparr>]
                       else [])
    \<and> completionsOf (snd (useFrame p now delta s)) =
         (if onSimulationUpdate p \<and> onSimulationComplete p
             \<and> simulationStartTime s \<noteq> None \<and> simulationStartTime s \<noteq> Some 0
             \<and> initialCartPosition s \<noteq> None
             \<and> \<bar>xc (translation cart) - xc (the (initialCartPosition s))\<bar> \<ge> distance p
          then 1 else 0)
    \<and> (action tm = CompleteCallback \<and> onSimulationComplete (sceneProps (appState w))
          \<longrightarrow> completeCalls (fire tm w) = completeCalls w + 1)"
proof -
  obtain cart' where c: "cartRef (fst (cartBlock p now delta cart s)) = Some cart'"
    "translation cart' = translation cart"
    using translation_cartBlock [OF assms(3)] by blast
  have t: "timers (fst (useFrame p now delta s)) =
           timers s @ (if xc (translation cart) \<ge> distance p \<and> \<bar>xc (linvel cart)\<bar> < 0.1
                       then [\<lparr>tid = nextTimerId s, due = now + 100, action = CompleteCallback\<rparr>]
                       else [])"
    by (simp add: useFrame_running [OF assms] timers_cartBlock)
  have n: "completionsOf (snd (useFrame p now delta s)) =
         (if onSimulationUpdate p \<and> onSimulationComplete p
             \<and> simulationStartTime s \<noteq> None \<and> simulationStartTime s \<noteq> Some 0
             \<and> initialCartPosition s \<noteq> None
             \<and> \<bar>xc (translation cart) - xc (the (initialCartPosition s))\<bar> \<ge> distance p
          then 1 else 0)"
    using assms(2) c
    by (simp add: useFrame_running [OF assms] completionsOf_append completionsOf_cartBlock
        telemetry_def Let_def startTime_cartBlock initialCartPosition_cartBlock)
  have f: "action tm = CompleteCallback \<and> onSimulationComplete (sceneProps (appState w))
          \<longrightarrow> completeCalls (fire tm w) = completeCalls w + 1"
    by (simp add: fire_def Let_def dispatch_def rerender_def)
  show ?thesis using t n f by simp
qed

theorem C1_witness:
  "physicsEnabled (runningScene (cartAt 100 0.05) box0) \<and> isSimulating runningProps
   \<and> cartRef (runningScene (cartAt 100 0.05) box0) = Some (cartAt 100 0.05)
   \<and> timers (fst (useFrame runningProps 1020 0.02 (runningScene (cartAt 100 0.05) box0)))
       = [\<lparr>tid = 1, due = 1120, action = CompleteCallback\<rparr>]
   \<and> completionsOf (snd (useFrame runningProps 1020 0.02 (runningScene (cartAt 100 0.05) box0))) = 1
   \<and> completeCalls (fire \<lparr>tid = 1, due = 1120, action = CompleteCallback\<rparr> (initialWorld 1000)) = 1"
  using C1_completion_calls [where s = "runningScene (cartAt 100 0.05) box0" and p = runningProps
      and cart = "cartAt 100 0.05" and now = 1020 and delta = "0.02"
      and tm = "\<lparr>tid = 1, due = 1120, action = CompleteCallback\<rparr>" and w = "initialWorld 1000"]
  by (simp add: runningScene_simps runningProps_simps cartAt_simps V3_sel initialWorld_def
      initialApp_def)

text \<open>
  One frame, then two runs from the initial state (target distance 100, start at clock
  reading 1000, start position x0 = 0). With the cart at x = 100 and speed 0.05 the frame
  passes both tests: \<open>100 \<ge> 100\<close> and \<open>0.05 < 0.1\<close> schedule the delayed call (due 1100),
  and the travel distance \<open>|100 - 0| \<ge> 100\<close> makes the telemetry block call the callback in
  the same frame. In the first run that frame is followed by 100 ms: the callback has then
  been called twice. In the second run the cart is at x = 5 when the run is reset: the
  callback is never called.
\<close>

theorem C1_counterexample:
  "completionsOf (snd (useFrame runningProps 1000 0.02 (runningScene (cartAt 100 0.05) box0))) = 1
   \<and> timers (fst (useFrame runningProps 1000 0.02 (runningScene (cartAt 100 0.05) box0)))
       = [\<lparr>tid = 1, due = 1100, action = CompleteCallback\<rparr>]
   \<and> completeCalls (run [ClickStart, Physics (Some (cartAt 100 0.05)) (Some box0), Frame 0.02,
                       Elapse 100] (initialWorld 1000)) = 2
   \<and> completeCalls (run [ClickStart, Physics (Some (cartAt 5 1)) (Some box0), Frame 0.02,
                         ClickReset, Elapse 2000] (initialWorld 1000)) = 0"
  by (simp add: example_defs frame_defs world_defs geometry_defs Let_def advance_None advance_Some)

text \<open>
  C2 (as amended). The claim ties the forward impulse to \<open>|velocity.x| < maxSpeed\<close>;
  the source compares the signed velocity. What holds: in every frame that runs, the forward
  impulse \<open>(acceleration \<times> delta \<times> cartWeight, 0, 0)\<close> is applied exactly when
  \<open>velocity.x < maxSpeed\<close>, hence whenever \<open>|velocity.x| < maxSpeed\<close> but also when the cart moves
  backwards at \<open>maxSpeed\<close> or faster; the only other impulse of the frame is the reverse one
  beyond the target distance. With the velocity change \<open>impulse / mass\<close> and a nonzero
  mass, the forward impulse adds \<open>acceleration \<times> delta\<close> to the velocity along x, for any
  \<open>delta\<close>.
\<close>

theorem C2_forward_impulse:
  assumes "physicsEnabled s" "isSimulating p" "cartRef s = Some cart"
  shows "impulsesOf (snd (useFrame p now delta s)) =
           (if xc (linvel cart) < maxSpeed p
            then [V3 (acceleration p * delta * cartWeight p) 0 0] else [])
           @ (if xc (translation cart) \<ge> distance p
              then [V3 (- deceleration p * delta * cartWeight p) 0 0] else [])
    \<and> (\<bar>xc (linvel cart)\<bar> < maxSpeed p \<longrightarrow>
          hd (impulsesOf (snd (useFrame p now delta s)))
            = V3 (acceleration p * delta * cartWeight p) 0 0)
    \<and> (cartWeight p \<noteq> 0 \<longrightarrow>
          linvel (applyImpulse (cartWeight p) (V3 (acceleration p * delta * cartWeight p) 0 0) cart)
            = V3 (xc (linvel cart) + acceleration p * delta) (yc (linvel cart)) (zc (linvel cart)))
    \<and> (cartWeight p \<noteq> 0 \<and> xc (linvel cart) < maxSpeed p \<and> xc (translation cart) < distance p \<longrightarrow>
          (\<exists>cart'. cartRef (fst (useFrame p now delta s)) = Some cart'
             \<and> xc (linvel cart') = xc (linvel cart) + acceleration p * delta))"
proof -
  have v: "cartWeight p \<noteq> 0 \<Longrightarrow> \<exists>cart'. cartRef (fst (useFrame p now delta s)) = Some cart'
     \<and> translation cart' = translation cart
     \<and> xc (linvel cart') = xc (linvel cart)
         + (if xc (linvel cart) < maxSpeed p then acceleration p * delta else 0)
         - (if xc (translation cart) \<ge> distance p then deceleration p * delta else 0)"
    using frame_cart_velocity [OF assms] by blast
  have "cartWeight p \<noteq> 0 \<and> xc (linvel cart) < maxSpeed p \<and> xc (translation cart) < distance p \<longrightarrow>
          (\<exists>cart'. cartRef (fst (useFrame p now delta s)) = Some cart'
             \<and> xc (linvel cart') = xc (linvel cart) + acceleration p * delta)"
    using v by auto
  then show ?thesis
    by (simp add: frame_impulses [OF assms] applyImpulse_def V3_def)
qed

theorem C2_witness:
  "physicsEnabled (runningScene (cartAt 50 2) box0) \<and> isSimulating runningProps
   \<and> cartRef (runningScene (cartAt 50 2) box0) = Some (cartAt 50 2)
   \<and> impulsesOf (snd (useFrame runningProps 1020 0.02 (runningScene (cartAt 50 2) box0)))
       = [V3 1 0 0]
   \<and> (\<exists>cart'. cartRef (fst (useFrame runningProps 1020 0.02 (runningScene (cartAt 50 2) box0)))
                 = Some cart' \<and> xc (linvel cart') = 2.1)"
proof -
  have h1: "physicsEnabled (runningScene (cartAt 50 2) box0)"
    by (simp add: example_defs onIsSimulatingChange_def Let_def)
  have h2: "isSimulating runningProps"
    by (simp add: example_defs)
  have h3: "cartRef (runningScene (cartAt 50 2) box0) = Some (cartAt 50 2)"
    by (simp add: example_defs onIsSimulatingChange_def Let_def)
  have p: "maxSpeed runningProps = 10" "acceleration runningProps = 5" "cartWeight runningProps = 10"
     "distance runningProps = 100" "deceleration runningProps = 3"
    by (simp_all add: example_defs)
  have c: "xc (linvel (cartAt 50 2)) = 2" "xc (translation (cartAt 50 2)) = 50"
    by (simp_all add: cartAt_def restingBody_def V3_def)
  show ?thesis
    using C2_forward_impulse [OF h1 h2 h3, of 1020 "0.02"]
    by (simp add: h1 h2 h3 p c)
qed

text \<open>
  A cart moving backwards at 20 with maximal speed 10, acceleration 5, mass 10 and a frame
  of 0.02 s: \<open>|-20| < 10\<close> is false, the source's test \<open>-20 < 10\<close> is true, and the frame
  applies the forward impulse \<open>5 \<times> 0.02 \<times> 10 = 1\<close>.
\<close>

theorem C2_counterexample:
  "\<not> \<bar>xc (linvel (cartAt 50 (- 20)))\<bar> < maxSpeed runningProps
   \<and> impulsesOf (snd (useFrame runningProps 1020 0.02 (runningScene (cartAt 50 (- 20)) box0)))
       = [V3 1 0 0]"
  by (simp add: example_defs frame_defs onIsSimulatingChange_def geometry_defs Let_def)



text \<open>
  C4 (as amended). The distance reported is the displacement \<open>|x - x0|\<close> from the position
  at the start of the run, not the length of the path, so it falls when the cart moves back
  towards its start. What holds: a frame that emits telemetry emits the time since the
  start reading of the clock, the distance \<open>|x - x0|\<close> and the speed \<open>|velocity.x|\<close>;
  distance and speed are never negative, the time is not negative when the clock reading
  is not before the start reading; between two frames of a run the distance does not
  decrease when the cart has not moved back towards its start position; and the distance
  shown is \<open>0.0\<close> whenever the application is neither simulating nor paused, the stored
  value being set to 0 by start and by reset.
\<close>

theorem C4_telemetry:
  assumes "physicsEnabled s" "isSimulating p" "cartRef s = Some cart"
    and "onSimulationUpdate p" "simulationStartTime s = Some start" "start \<noteq> 0"
    and "initialCartPosition s = Some origin"
    and "physicsEnabled s'" "cartRef s' = Some cart'"
    and "simulationStartTime s' = Some start" "initialCartPosition s' = Some origin"
  shows "updatesOf (snd (useFrame p now delta s)) =
           [(real now / 1000 - start, \<bar>xc (translation cart) - xc origin\<bar>,
             \<bar>xc (linvel (the (cartRef (fst (useFrame p now delta s)))))\<bar>)]
    \<and> (\<forall>(t, d, v) \<in> set (updatesOf (snd (useFrame p now delta s))).
          0 \<le> d \<and> 0 \<le> v \<and> (start \<le> real now / 1000 \<longrightarrow> 0 \<le> t))
    \<and> distancesOf (snd (useFrame p now delta s)) = [\<bar>xc (translation cart) - xc origin\<bar>]
    \<and> distancesOf (snd (useFrame p now' delta' s')) = [\<bar>xc (translation cart') - xc origin\<bar>]
    \<and> (xc origin \<le> xc (translation cart) \<and> xc (translation cart) \<le> xc (translation cart')
          \<longrightarrow> list_all2 (\<le>) (distancesOf (snd (useFrame p now delta s)))
                               (distancesOf (snd (useFrame p now' delta' s'))))
    \<and> (xc (translation cart') \<le> xc (translation cart) \<and> xc (translation cart) \<le> xc origin
          \<longrightarrow> list_all2 (\<le>) (distancesOf (snd (useFrame p now delta s)))
                               (distancesOf (snd (useFrame p now' delta' s'))))
    \<and> (\<not> isSimulating (sceneProps a) \<and> \<not> isPaused a \<longrightarrow> displayedDistance fmt a = ''0.0'')
    \<and> displayedDistance fmt (handleReset a) = ''0.0''
    \<and> simulationDistance (handleReset a) = 0
    \<and> simulationDistance (handleStart a) = 0"
proof -
  have u: "updatesOf (snd (useFrame p now delta s)) =
           [(real now / 1000 - start, \<bar>xc (translation cart) - xc origin\<bar>,
             \<bar>xc (linvel (the (cartRef (fst (useFrame p now delta s)))))\<bar>)]"
    by (simp add: frame_telemetry [OF assms(1-7)] updatesOf_append updatesOf_cartBlock)
  have u': "distancesOf (snd (useFrame p now' delta' s')) = [\<bar>xc (translation cart') - xc origin\<bar>]"
    by (simp add: frame_telemetry [OF assms(8) assms(2) assms(9) assms(4) assms(10) assms(6) assms(11)]
        updatesOf_append updatesOf_cartBlock distancesOf_def)
  have app: "(\<not> isSimulating (sceneProps a) \<and> \<not> isPaused a \<longrightarrow> displayedDistance fmt a = ''0.0'')
    \<and> displayedDistance fmt (handleReset a) = ''0.0''
    \<and> simulationDistance (handleReset a) = 0
    \<and> simulationDistance (handleStart a) = 0"
    by (simp add: displayedDistance_def handleReset_def handleStart_def setIsSimulating_def)
  show ?thesis
    using u' app by (simp add: u distancesOf_def)
qed

theorem C4_witness:
  "physicsEnabled (runningScene (cartAt 3 1) box0) \<and> isSimulating runningProps
   \<and> cartRef (runningScene (cartAt 3 1) box0) = Some (cartAt 3 1)
   \<and> onSimulationUpdate runningProps
   \<and> simulationStartTime (runningScene (cartAt 3 1) box0) = Some 1
   \<and> initialCartPosition (runningScene (cartAt 3 1) box0) = Some (V3 0 CART_CENTER_Y 0)
   \<and> updatesOf (snd (useFrame runningProps 1020 0.02 (runningScene (cartAt 3 1) box0)))
       = [(0.02, 3, 1.1)]
   \<and> distancesOf (snd (useFrame runningProps 1040 0.02 (runningScene (cartAt 5 1) box0))) = [5]
   \<and> list_all2 (\<le>)
        (distancesOf (snd (useFrame runningProps 1020 0.02 (runningScene (cartAt 3 1) box0))))
        (distancesOf (snd (useFrame runningProps 1040 0.02 (runningScene (cartAt 5 1) box0))))
   \<and> displayedDistance (\<lambda>r. ''?'') initialApp = ''0.0''"
proof -
  have t0: "(1::real) \<noteq> 0" by simp
  have v: "xc (linvel (the (cartRef (fst (useFrame runningProps 1020 0.02
               (runningScene (cartAt 3 1) box0)))))) = 1.1"
    using frame_cart_velocity [where s = "runningScene (cartAt 3 1) box0" and p = runningProps
        and cart = "cartAt 3 1" and now = 1020 and delta = "0.02"]
    by (auto simp add: runningScene_simps runningProps_simps cartAt_simps V3_sel)
  show ?thesis
    using v C4_telemetry [where s = "runningScene (cartAt 3 1) box0" and p = runningProps
        and cart = "cartAt 3 1" and start = 1 and origin = "V3 0 CART_CENTER_Y 0"
        and s' = "runningScene (cartAt 5 1) box0" and cart' = "cartAt 5 1"
        and now = 1020 and delta = "0.02" and now' = 1040 and delta' = "0.02"
        and a = initialApp and fmt = "\<lambda>r. ''?''"]
    by (simp add: runningScene_simps runningProps_simps cartAt_simps V3_sel initialApp_def)
qed

text \<open>
  Two consecutive frames of one run that started with the cart at x0 = 0. The physics
  engine reports the cart at x = 5 for the first and at x = 3 for the second, as it does
  when the cart rolls back: the distances emitted are \<open>|5 - 0| = 5\<close> and then
  \<open>|3 - 0| = 3\<close>. The same is shown for the frames alone and for the whole system, where
  the value arrives in the application's state while it is simulating.
\<close>

theorem C4_counterexample:
  "distancesOf (snd (useFrame runningProps 1020 0.02 (runningScene (cartAt 5 1) box0))) = [5]
   \<and> distancesOf (snd (useFrame runningProps 1040 0.02 (runningScene (cartAt 3 (- 1)) box0))) = [3]
   \<and> simulationDistance (appState (run [ClickStart, Physics (Some (cartAt 5 1)) (Some box0),
       Frame 0.02] (initialWorld 1000))) = 5
   \<and> isSimulating (sceneProps (appState (run [ClickStart, Physics (Some (cartAt 5 1)) (Some box0),
       Frame 0.02] (initialWorld 1000))))
   \<and> simulationDistance (appState (run [ClickStart, Physics (Some (cartAt 5 1)) (Some box0),
       Frame 0.02, Elapse 20, Physics (Some (cartAt 3 (- 1))) (Some box0), Frame 0.02]
       (initialWorld 1000))) = 3
   \<and> isSimulating (sceneProps (appState (run [ClickStart, Physics (Some (cartAt 5 1)) (Some box0),
       Frame 0.02, Elapse 20, Physics (Some (cartAt 3 (- 1))) (Some box0), Frame 0.02]
       (initialWorld 1000))))"
  by (simp add: example_defs frame_defs world_defs geometry_defs Let_def advance_None advance_Some
      distancesOf_def)

text \<open>
  C5. After \<open>resetSimulation\<close>, with both bodies present, the cart is at the recalculated
  initial position with zero linear and angular velocity and the identity rotation, and the
  box has the cart's x and z, its centre half a box height above the cart's top face (the
  cart's y plus half the cart height), zero velocities and the identity rotation. The first
  stage of a reset leaves the bodies exactly so.
\<close>

theorem C5_reset_restores:
  assumes "cartRef s = Some cart" "boxRef s = Some box"
  shows "\<exists>cart' box'.
      cartRef (resetSimulation s) = Some cart' \<and> boxRef (resetSimulation s) = Some box'
    \<and> translation cart' = RECALCULATED_CART_POSITION
    \<and> linvel cart' = V3 0 0 0 \<and> angvel cart' = V3 0 0 0 \<and> rotation cart' = Q4 0 0 0 1
    \<and> xc (translation box') = xc (translation cart')
    \<and> zc (translation box') = zc (translation cart')
    \<and> yc (translation box') = (yc (translation cart') + height CART_SIZE / 2) + height BOX_SIZE / 2
    \<and> linvel box' = V3 0 0 0 \<and> angvel box' = V3 0 0 0 \<and> rotation box' = Q4 0 0 0 1
    \<and> cartRef (resetStage now s) = Some cart' \<and> boxRef (resetStage now s) = Some box'"
  by (simp add: reset_bodies [OF assms] restingBody_def V3_sel)

theorem C5_witness:
  "cartRef (runningScene (cartAt 42 7) tiltedBox) = Some (cartAt 42 7)
   \<and> boxRef (runningScene (cartAt 42 7) tiltedBox) = Some tiltedBox
   \<and> cartRef (resetSimulation (runningScene (cartAt 42 7) tiltedBox))
       = Some \<lparr>translation = V3 0 0.3 0, linvel = V3 0 0 0, angvel = V3 0 0 0,
               rotation = Q4 0 0 0 1\<rparr>
   \<and> boxRef (resetSimulation (runningScene (cartAt 42 7) tiltedBox))
       = Some \<lparr>translation = V3 0 0.8 0, linvel = V3 0 0 0, angvel = V3 0 0 0,
               rotation = Q4 0 0 0 1\<rparr>"
proof -
  have h2: "cartRef (runningScene (cartAt 42 7) tiltedBox) = Some (cartAt 42 7)"
    by (simp add: runningScene_simps)
  have h3: "boxRef (runningScene (cartAt 42 7) tiltedBox) = Some tiltedBox"
    by (simp add: runningScene_simps)
  obtain cart' box' where r:
    "cartRef (resetSimulation (runningScene (cartAt 42 7) tiltedBox)) = Some cart'"
    "boxRef (resetSimulation (runningScene (cartAt 42 7) tiltedBox)) = Some box'"
    "translation cart' = RECALCULATED_CART_POSITION"
    "linvel cart' = V3 0 0 0" "angvel cart' = V3 0 0 0" "rotation cart' = Q4 0 0 0 1"
    "xc (translation box') = xc (translation cart')"
    "zc (translation box') = zc (translation cart')"
    "yc (translation box') = (yc (translation cart') + height CART_SIZE / 2) + height BOX_SIZE / 2"
    "linvel box' = V3 0 0 0" "angvel box' = V3 0 0 0" "rotation box' = Q4 0 0 0 1"
    using C5_reset_restores [OF h2 h3, of 0]
    by blast
  have "cart' = \<lparr>translation = V3 0 0.3 0, linvel = V3 0 0 0, angvel = V3 0 0 0,
               rotation = Q4 0 0 0 1\<rparr>"
    using r(3-6) by (simp add: geometry_defs)
  moreover have "box' = \<lparr>translation = V3 0 0.8 0, linvel = V3 0 0 0, angvel = V3 0 0 0,
               rotation = Q4 0 0 0 1\<rparr>"
    using r(3,7-12) by (cases box', cases "translation box'") (simp add: geometry_defs)
  ultimately show ?thesis using r(1,2) by (simp add: runningScene_simps)
qed

text \<open>
  C6. In the free regime (\<open>resetJustApplied\<close> false), a frame that runs leaves the box
  exactly as it was when its offset from the cart reaches 0.9 along x or 0.4 along z.
  Within these tolerances the box keeps its position and angular velocity; its rotation is
  replaced by \<open>(0, y, 0, w)\<close> when the x or z component exceeds 0.01 in magnitude, and its
  velocity along y is multiplied by 0.7 when it exceeds 1 in magnitude, the velocities
  along x and z staying as they were.
\<close>

theorem C6_free_regime:
  assumes "physicsEnabled s" "isSimulating p" "cartRef s = Some cart" "boxRef s = Some box"
    and "\<not> resetJustApplied s"
  shows "(\<bar>xc (translation box) - xc (translation cart)\<bar> \<ge> 0.9
            \<or> \<bar>zc (translation box) - zc (translation cart)\<bar> \<ge> 0.4
          \<longrightarrow> boxRef (fst (useFrame p now delta s)) = Some box)
    \<and> (\<bar>xc (translation box) - xc (translation cart)\<bar> < 0.9
            \<and> \<bar>zc (translation box) - zc (translation cart)\<bar> < 0.4
          \<longrightarrow> boxRef (fst (useFrame p now delta s)) =
                Some (box\<lparr>linvel := (if \<bar>yc (linvel box)\<bar> > 1
                                       then V3 (xc (linvel box)) (yc (linvel box) * 0.7) (zc (linvel box))
                                       else linvel box),
                          rotation := (if \<bar>qx (rotation box)\<bar> > 0.01 \<or> \<bar>qz (rotation box)\<bar> > 0.01
                                       then Q4 0 (qy (rotation box)) 0 (qw (rotation box))
                                       else rotation box)\<rparr>))"
  using assms(4,5)
  by (auto simp add: useFrame_running [OF assms(1-3)] boxRef_cartBlock boxManagement_def Let_def
       dampBounce_def correctTilt_def setRotation_def setLinvel_def)

theorem C6_witness:
  "physicsEnabled (runningScene (cartAt 5 1) box0) \<and> isSimulating runningProps
   \<and> \<not> resetJustApplied (runningScene (cartAt 5 1) box0)
   \<and> \<bar>xc (translation box0) - xc (translation (cartAt 5 1))\<bar> > 0.9
   \<and> boxRef (fst (useFrame runningProps 1020 0.02 (runningScene (cartAt 5 1) box0))) = Some box0
   \<and> \<bar>xc (translation tiltedBox) - xc (translation (cartAt 0 1))\<bar> < 0.9
   \<and> \<bar>zc (translation tiltedBox) - zc (translation (cartAt 0 1))\<bar> < 0.4
   \<and> boxRef (fst (useFrame runningProps 1020 0.02 (runningScene (cartAt 0 1) tiltedBox)))
       = Some \<lparr>translation = V3 0.5 0.8 0, linvel = V3 0.25 1.4 0, angvel = V3 0 0 0,
               rotation = Q4 0 0 0 0.8\<rparr>"
  using C6_free_regime [where s = "runningScene (cartAt 5 1) box0" and p = runningProps
        and cart = "cartAt 5 1" and box = box0 and now = 1020 and delta = "0.02"]
    C6_free_regime [where s = "runningScene (cartAt 0 1) tiltedBox" and p = runningProps
        and cart = "cartAt 0 1" and box = tiltedBox and now = 1020 and delta = "0.02"]
  by (simp add: runningScene_simps runningProps_simps cartAt_simps V3_sel box0_def tiltedBox_def
      restingBody_def RECALCULATED_BOX_POSITION_def Q4_def)

text \<open>
  C7 (as amended). The claim says that a new reset cancels what an earlier reset has
  scheduled. What holds: a reset request cancels no pending timer; it disables physics and
  schedules a new first stage 100 ms later. In every state reachable from the initial one
  at most one second-stage timer is pending, and when a first stage runs, any second-stage
  timer still pending from an earlier reset is cancelled and replaced by a new one, due
  1000 ms later, which \<open>resetTimerRef\<close> then names.
\<close>

theorem C7_reenable_timer_replaced:
  "length (pendingReenable (sceneState (run evs (initialWorld t0)))) \<le> 1
   \<and> (\<forall>tm \<in> set (timers (sceneState (run evs (initialWorld t0)))).
        action tm = ResetStage \<longrightarrow>
          pendingReenable (sceneState (fire tm (run evs (initialWorld t0))))
            = [\<lparr>tid = nextTimerId (sceneState (run evs (initialWorld t0))),
                due = max (clock (run evs (initialWorld t0))) (due tm) + 1000,
                action = ReenableStage\<rparr>]
          \<and> resetTimerRef (sceneState (fire tm (run evs (initialWorld t0))))
              = Some (nextTimerId (sceneState (run evs (initialWorld t0)))))
   \<and> (prevIsSimulating s \<and> \<not> isSimulating p \<longrightarrow>
        timers (onIsSimulatingChange p now s)
          = timers s @ [\<lparr>tid = nextTimerId s, due = now + 100, action = ResetStage\<rparr>]
        \<and> resetTimerRef (onIsSimulatingChange p now s) = resetTimerRef s
        \<and> \<not> physicsEnabled (onIsSimulatingChange p now s))"
proof -
  let ?w = "run evs (initialWorld t0)"
  have request: "prevIsSimulating s \<and> \<not> isSimulating p \<longrightarrow>
        timers (onIsSimulatingChange p now s)
          = timers s @ [\<lparr>tid = nextTimerId s, due = now + 100, action = ResetStage\<rparr>]
        \<and> resetTimerRef (onIsSimulatingChange p now s) = resetTimerRef s
        \<and> \<not> physicsEnabled (onIsSimulatingChange p now s)"
    by (simp add: onIsSimulatingChange_def Let_def setTimeout_def)
  have c: "timersConsistent (sceneState ?w)"
    using consistent_initial by (rule consistent_run)
  have "\<And>tm. action tm = ResetStage \<Longrightarrow>
          pendingReenable (sceneState (fire tm ?w))
            = [\<lparr>tid = nextTimerId (sceneState ?w),
                due = max (clock ?w) (due tm) + 1000, action = ReenableStage\<rparr>]
          \<and> resetTimerRef (sceneState (fire tm ?w)) = Some (nextTimerId (sceneState ?w))"
  proof -
    fix tm :: timer
    assume a: "action tm = ResetStage"
    let ?s1 = "clearTimeout (tid tm) (sceneState ?w)"
    have c1: "timersConsistent ?s1" using c by (rule consistent_clearTimeout)
    have n: "nextTimerId ?s1 = nextTimerId (sceneState ?w)" by (simp add: clearTimeout_def)
    show "pendingReenable (sceneState (fire tm ?w))
            = [\<lparr>tid = nextTimerId (sceneState ?w),
                due = max (clock ?w) (due tm) + 1000, action = ReenableStage\<rparr>]
          \<and> resetTimerRef (sceneState (fire tm ?w)) = Some (nextTimerId (sceneState ?w))"
      using a resetStage_replaces [OF c1, of "max (clock ?w) (due tm)"]
        resetStage_timers [of "max (clock ?w) (due tm)" ?s1] n
      by (simp add: fire_def Let_def)
  qed
  then show ?thesis using consistent_at_most_one [OF c] request by blast
qed

theorem C7_witness:
  "\<lparr>tid = 3, due = 2150, action = ResetStage\<rparr>
     \<in> set (timers (sceneState (run [ClickStart, ClickReset, Elapse 1050, ClickStart, ClickReset]
          (initialWorld 1000))))
   \<and> pendingReenable (sceneState (run [ClickStart, ClickReset, Elapse 1050, ClickStart, ClickReset]
          (initialWorld 1000)))
       = [\<lparr>tid = 2, due = 2100, action = ReenableStage\<rparr>]
   \<and> pendingReenable (sceneState (fire \<lparr>tid = 3, due = 2150, action = ResetStage\<rparr>
          (run [ClickStart, ClickReset, Elapse 1050, ClickStart, ClickReset] (initialWorld 1000))))
       = [\<lparr>tid = 4, due = 3150, action = ReenableStage\<rparr>]
   \<and> prevIsSimulating (onIsSimulatingChange runningProps 1000 initialScene)
   \<and> \<not> isSimulating (sceneProps initialApp)
   \<and> timers (onIsSimulatingChange (sceneProps initialApp) 1500
          (onIsSimulatingChange runningProps 1000 initialScene))
       = [\<lparr>tid = 1, due = 1600, action = ResetStage\<rparr>]"
proof -
  let ?w = "run [ClickStart, ClickReset, Elapse 1050, ClickStart, ClickReset] (initialWorld 1000)"
  have req: "prevIsSimulating (onIsSimulatingChange runningProps 1000 initialScene)"
    "\<not> isSimulating (sceneProps initialApp)"
    "timers (onIsSimulatingChange runningProps 1000 initialScene) = []"
    "nextTimerId (onIsSimulatingChange runningProps 1000 initialScene) = 1"
    by (simp_all add: example_defs onIsSimulatingChange_def Let_def)
  have ev: "timers (sceneState ?w) = [\<lparr>tid = 2, due = 2100, action = ReenableStage\<rparr>,
               \<lparr>tid = 3, due = 2150, action = ResetStage\<rparr>]"
      "nextTimerId (sceneState ?w) = 4" "clock ?w = 2050"
    by (simp_all add: example_defs frame_defs world_defs geometry_defs Let_def
        advance_None advance_Some)
  show ?thesis
    using C7_reenable_timer_replaced
      [where evs = "[ClickStart, ClickReset, Elapse 1050, ClickStart, ClickReset]"
         and ?t0.0 = 1000 and s = "onIsSimulatingChange runningProps 1000 initialScene"
         and p = "sceneProps initialApp" and now = 1500]
    by (simp add: ev req pendingReenable_def)
qed

text \<open>
  Start and reset at clock reading 1000 (first-stage timer 1, due 1100), start again at
  1030, reset again at 1060 (first-stage timer 2, due 1160): timer 1 is still pending after
  the second request, and 40 ms later it has fired, setting \<open>resetJustApplied\<close> and
  scheduling the second-stage timer 3, due 2100.
\<close>

theorem C7_counterexample:
  "timers (sceneState (run [ClickStart, ClickReset, Elapse 30, ClickStart, Elapse 30, ClickReset]
       (initialWorld 1000)))
     = [\<lparr>tid = 1, due = 1100, action = ResetStage\<rparr>, \<lparr>tid = 2, due = 1160, action = ResetStage\<rparr>]
   \<and> clock (run [ClickStart, ClickReset, Elapse 30, ClickStart, Elapse 30, ClickReset]
       (initialWorld 1000)) = 1060
   \<and> \<not> resetJustApplied (sceneState (run [ClickStart, ClickReset, Elapse 30, ClickStart, Elapse 30,
       ClickReset] (initialWorld 1000)))
   \<and> timers (sceneState (run [ClickStart, ClickReset, Elapse 30, ClickStart, Elapse 30, ClickReset,
       Elapse 40] (initialWorld 1000)))
     = [\<lparr>tid = 2, due = 1160, action = ResetStage\<rparr>, \<lparr>tid = 3, due = 2100, action = ReenableStage\<rparr>]
   \<and> resetJustApplied (sceneState (run [ClickStart, ClickReset, Elapse 30, ClickStart, Elapse 30,
       ClickReset, Elapse 40] (initialWorld 1000)))"
  by (simp add: example_defs frame_defs world_defs geometry_defs Let_def advance_None advance_Some)



text \<open>
  C9. The derived geometry constants: the wheel centre is one wheel radius above the floor's
  top face; the cart centre is the floor top plus half a wheel radius plus half the cart
  height; the box's initial centre is the cart centre plus half the cart height plus half
  the box height, so the box's bottom face lies on the cart's top face; and the four wheels
  sit at the front and back ends of the cart, on both sides, with lateral offset cart
  half-depth plus wheel half-width, so that each wheel's inner side face lies in the plane
  of the cart's side face. With the constants of the source these heights are 0.1, 0.3
  and 0.8 and the lateral offset is 0.45.
\<close>

theorem C9_derived_geometry:
  "WHEEL_CENTER_Y = FLOOR_TOP_Y + radius WHEEL_SIZE
   \<and> CART_CENTER_Y = FLOOR_TOP_Y + radius WHEEL_SIZE / 2 + height CART_SIZE / 2
   \<and> yc RECALCULATED_BOX_POSITION = CART_CENTER_Y + height CART_SIZE / 2 + height BOX_SIZE / 2
   \<and> yc RECALCULATED_BOX_POSITION - height BOX_SIZE / 2
       = yc RECALCULATED_CART_POSITION + height CART_SIZE / 2
   \<and> map (\<lambda>p. (xc p, zc p)) wheelMeshPositions
       = [(width CART_SIZE / 2, depth CART_SIZE / 2 + wheel_width WHEEL_SIZE / 2),
          (width CART_SIZE / 2, - (depth CART_SIZE / 2 + wheel_width WHEEL_SIZE / 2)),
          (- (width CART_SIZE / 2), depth CART_SIZE / 2 + wheel_width WHEEL_SIZE / 2),
          (- (width CART_SIZE / 2), - (depth CART_SIZE / 2 + wheel_width WHEEL_SIZE / 2))]
   \<and> WHEEL_LEFT_Z - wheel_width WHEEL_SIZE / 2 = depth CART_SIZE / 2
   \<and> WHEEL_RIGHT_Z + wheel_width WHEEL_SIZE / 2 = - (depth CART_SIZE / 2)
   \<and> WHEEL_CENTER_Y = 0.1 \<and> CART_CENTER_Y = 0.3
   \<and> yc RECALCULATED_BOX_POSITION = 0.8 \<and> WHEEL_LEFT_Z = 0.45"
  by (simp add: geometry_defs)

text \<open>
  C10. The tilt correction writes \<open>(0, y, 0, w)\<close> with the box's own y and w: for a unit
  rotation whose x or z component exceeds the threshold, the rotation written has norm
  \<open>sqrt (y\<^sup>2 + w\<^sup>2)\<close>, which is below 1. The rotation (0.6, 0, 0, 0.8) is such a case.
\<close>

theorem C10_tilt_not_renormalized:
  assumes "physicsEnabled s" "isSimulating p" "cartRef s = Some cart" "boxRef s = Some box"
    and "\<not> resetJustApplied s"
    and "\<bar>xc (translation box) - xc (translation cart)\<bar> < 0.9"
    and "\<bar>zc (translation box) - zc (translation cart)\<bar> < 0.4"
    and "\<bar>qx (rotation box)\<bar> > 0.01 \<or> \<bar>qz (rotation box)\<bar> > 0.01"
    and "quatNorm (rotation box) = 1"
  shows "\<exists>box'. boxRef (fst (useFrame p now delta s)) = Some box'
           \<and> rotation box' = Q4 0 (qy (rotation box)) 0 (qw (rotation box))
           \<and> quatNorm (rotation box') = sqrt ((qy (rotation box))\<^sup>2 + (qw (rotation box))\<^sup>2)
           \<and> quatNorm (rotation box') < 1"
proof -
  let ?q = "rotation box"
  have unit: "(qx ?q)\<^sup>2 + (qy ?q)\<^sup>2 + (qz ?q)\<^sup>2 + (qw ?q)\<^sup>2 = 1"
    using assms(9) by (simp add: quatNorm_def)
  have "qx ?q \<noteq> 0 \<or> qz ?q \<noteq> 0" using assms(8) by auto
  then have "0 < (qx ?q)\<^sup>2 + (qz ?q)\<^sup>2"
    by (metis add_pos_nonneg add_nonneg_pos zero_le_power2 zero_less_power2)
  with unit have less: "(qy ?q)\<^sup>2 + (qw ?q)\<^sup>2 < 1" by linarith
  have "boxRef (fst (useFrame p now delta s)) =
          Some (dampBounce (setRotation (Q4 0 (qy ?q) 0 (qw ?q)) box))"
    using assms(4-8)
    by (simp add: useFrame_running [OF assms(1-3)] boxRef_cartBlock boxManagement_def Let_def
         correctTilt_def)
  moreover have "rotation (dampBounce (setRotation (Q4 0 (qy ?q) 0 (qw ?q)) box))
                   = Q4 0 (qy ?q) 0 (qw ?q)"
    by (simp add: dampBounce_def setRotation_def setLinvel_def Let_def)
  moreover have "quatNorm (Q4 0 (qy ?q) 0 (qw ?q)) = sqrt ((qy ?q)\<^sup>2 + (qw ?q)\<^sup>2)"
    by (simp add: quatNorm_def Q4_def)
  moreover have "sqrt ((qy ?q)\<^sup>2 + (qw ?q)\<^sup>2) < 1"
    using less by simp
  ultimately show ?thesis by simp
qed

theorem C10_witness:
  "quatNorm (rotation tiltedBox) = 1 \<and> qx (rotation tiltedBox) \<noteq> 0
   \<and> (\<exists>box'. boxRef (fst (useFrame runningProps 1020 0.02 (runningScene (cartAt 0 1) tiltedBox)))
                 = Some box'
         \<and> rotation box' = Q4 0 0 0 0.8 \<and> quatNorm (rotation box') < 1)"
proof -
  have h6: "\<bar>xc (translation tiltedBox) - xc (translation (cartAt 0 1))\<bar> < 0.9"
    by (simp add: tiltedBox_def cartAt_simps V3_sel)
  have h7: "\<bar>zc (translation tiltedBox) - zc (translation (cartAt 0 1))\<bar> < 0.4"
    by (simp add: tiltedBox_def cartAt_simps V3_sel)
  have h8: "\<bar>qx (rotation tiltedBox)\<bar> > 0.01 \<or> \<bar>qz (rotation tiltedBox)\<bar> > 0.01"
    by (simp add: tiltedBox_def Q4_def)
  have h9: "quatNorm (rotation tiltedBox) = 1"
    by (simp add: tiltedBox_def Q4_def quatNorm_def power2_eq_square)
  show ?thesis
    using h6 h7 h8 h9
      C10_tilt_not_renormalized [where s = "runningScene (cartAt 0 1) tiltedBox"
        and p = runningProps and cart = "cartAt 0 1" and box = tiltedBox
        and now = 1020 and delta = "0.02"]
    by (auto simp add: runningScene_simps runningProps_simps tiltedBox_def Q4_def)
qed

end
